theory Spec2Isabelle
  imports Main "HOL-Library.Sublist"
begin

section \<open>Python values, exceptions and the built-ins the fetchers use\<close>

text \<open>
  The values that \<open>resp.json()\<close> can return. A Python \<open>str\<close> is modelled by the list of
  its code points, for code points below 256 (one \<open>char\<close> each). A \<open>float\<close> is carried as the
  text that \<open>json.dumps\<close> prints for it, which also decides its truth value. A \<open>dict\<close> is the
  list of its items in insertion order.
\<close>

datatype json =
    JNull
  | JBool bool
  | JInt int
  | JFloat string
  | JStr string
  | JArr "json list"
  | JObj "(string \<times> json) list"

text \<open>The exception classes that occur in \<open>app.py\<close>, or that its operations raise.
  \<open>JSONDecodeError\<close> and \<open>UnicodeDecodeError\<close> are both subclasses of \<open>ValueError\<close> in Python;
  no \<open>except\<close> clause of the fetchers names \<open>ValueError\<close>, so the three are kept apart.\<close>

datatype exn =
    RequestError
  | HTTPStatusError
  | JSONDecodeError
  | KeyError
  | IndexError
  | TypeError
  | AttributeError
  | ValueError
  | UnicodeDecodeError

text \<open>A computation either raises (\<open>Inl\<close>) or returns (\<open>Inr\<close>); \<open>bind_exn\<close> sequences two.\<close>

definition bind_exn :: "exn + 'a \<Rightarrow> ('a \<Rightarrow> exn + 'b) \<Rightarrow> exn + 'b" where
  "bind_exn m f = (case m of Inl e \<Rightarrow> Inl e | Inr x \<Rightarrow> f x)"

text \<open>\<open>try: m except (handled): return sentinel\<close>.\<close>

definition catch :: "exn list \<Rightarrow> json \<Rightarrow> exn + json \<Rightarrow> exn + json" where
  "catch handled sentinel m =
     (case m of
        Inl e \<Rightarrow> if e \<in> set handled then Inr sentinel else Inl e
      | Inr v \<Rightarrow> Inr v)"

text \<open>Truth value of a Python object (\<open>bool(v)\<close>), as \<open>and\<close>, \<open>or\<close> and \<open>if\<close> read it.\<close>

fun truthy :: "json \<Rightarrow> bool" where
  "truthy JNull = False"
| "truthy (JBool b) = b"
| "truthy (JInt i) = (i \<noteq> 0)"
| "truthy (JFloat r) = (r \<noteq> ''0.0'' \<and> r \<noteq> ''-0.0'')"
| "truthy (JStr s) = (s \<noteq> [])"
| "truthy (JArr xs) = (xs \<noteq> [])"
| "truthy (JObj kvs) = (kvs \<noteq> [])"

text \<open>\<open>v.get(k, d)\<close>: only a dict has the method.\<close>

fun py_get :: "json \<Rightarrow> string \<Rightarrow> json \<Rightarrow> exn + json" where
  "py_get (JObj kvs) k d = Inr (case map_of kvs k of None \<Rightarrow> d | Some v \<Rightarrow> v)"
| "py_get _ k d = Inl AttributeError"

text \<open>\<open>v[k]\<close> for a string key \<open>k\<close>.\<close>

fun getitem_key :: "json \<Rightarrow> string \<Rightarrow> exn + json" where
  "getitem_key (JObj kvs) k = (case map_of kvs k of None \<Rightarrow> Inl KeyError | Some v \<Rightarrow> Inr v)"
| "getitem_key _ k = Inl TypeError"

text \<open>\<open>v[n]\<close> for an index \<open>n \<ge> 0\<close>. The keys of a parsed JSON object are strings, so an
  integer is never among them.\<close>

fun getitem_index :: "json \<Rightarrow> nat \<Rightarrow> exn + json" where
  "getitem_index (JArr xs) n = (if n < length xs then Inr (xs ! n) else Inl IndexError)"
| "getitem_index (JStr s) n = (if n < length s then Inr (JStr [s ! n]) else Inl IndexError)"
| "getitem_index (JObj kvs) n = Inl KeyError"
| "getitem_index _ n = Inl TypeError"

text \<open>\<open>len(v)\<close>.\<close>

fun py_len :: "json \<Rightarrow> exn + nat" where
  "py_len (JArr xs) = Inr (length xs)"
| "py_len (JStr s) = Inr (length s)"
| "py_len (JObj kvs) = Inr (length kvs)"
| "py_len _ = Inl TypeError"

text \<open>The items that \<open>for x in v\<close> visits: the elements of a list, the characters of a
  string, the keys of a dict.\<close>

fun py_iter :: "json \<Rightarrow> exn + json list" where
  "py_iter (JArr xs) = Inr xs"
| "py_iter (JStr s) = Inr (map (\<lambda>c. JStr [c]) s)"
| "py_iter (JObj kvs) = Inr (map (\<lambda>kv. JStr (fst kv)) kvs)"
| "py_iter _ = Inl TypeError"

subsection \<open>Strings\<close>

text \<open>\<open>c.isdigit()\<close>: the decimal digits and, below code point 256, the superscript digits
  U+00B2, U+00B3 and U+00B9. \<open>isdecimal\<close> are the characters that \<open>int()\<close> reads.\<close>

definition isdecimal :: "char \<Rightarrow> bool" where
  "isdecimal c = (48 \<le> (of_char c :: nat) \<and> (of_char c :: nat) \<le> 57)"

definition isdigit :: "char \<Rightarrow> bool" where
  "isdigit c = (isdecimal c \<or> (of_char c :: nat) \<in> {178, 179, 185})"

text \<open>\<open>int(s)\<close> for a string of \<open>isdigit\<close> characters, the only strings \<open>parse_version\<close>
  passes: the decimal value, or \<open>ValueError\<close> when a character is not a decimal digit.
  (The interpreter's configurable cap on the number of digits is not modelled.)\<close>

definition py_int :: "string \<Rightarrow> exn + int" where
  "py_int s =
     (if s \<noteq> [] \<and> list_all isdecimal s
      then Inr (foldl (\<lambda>n c. 10 * n + (int (of_char c) - 48)) 0 s)
      else Inl ValueError)"

text \<open>\<open>s.lower()\<close>, character by character (below code point 256 no character changes the
  length): the letters A-Z and U+00C0 to U+00DE, the multiplication sign U+00D7 apart.\<close>

definition lower_char :: "char \<Rightarrow> char" where
  "lower_char c =
     (let n = (of_char c :: nat)
      in if (65 \<le> n \<and> n \<le> 90) \<or> (192 \<le> n \<and> n \<le> 222 \<and> n \<noteq> 215)
         then char_of (n + 32) else c)"

definition lower :: "string \<Rightarrow> string" where
  "lower s = map lower_char s"

text \<open>\<open>ex in s\<close> on strings: \<open>ex\<close> occurs in \<open>s\<close> as a contiguous substring.\<close>

fun contains :: "string \<Rightarrow> string \<Rightarrow> bool" where
  "contains ex [] = (ex = [])"
| "contains ex (c # cs) = (prefix ex (c # cs) \<or> contains ex cs)"

text \<open>\<open>s.split(d)\<close> for a one-character separator: never the empty list.\<close>

fun split :: "char \<Rightarrow> string \<Rightarrow> string list" where
  "split d [] = [[]]"
| "split d (c # cs) =
     (if c = d then [] # split d cs
      else (let ps = split d cs in (c # hd ps) # tl ps))"

text \<open>\<open>sep.join(xs)\<close>.\<close>

fun join :: "string \<Rightarrow> string list \<Rightarrow> string" where
  "join sep [] = []"
| "join sep [x] = x"
| "join sep (x # y # ys) = x @ sep @ join sep (y # ys)"

text \<open>\<open>str(n)\<close> for integers.\<close>

fun str_nat :: "nat \<Rightarrow> string" where
  "str_nat n =
     (if n < 10 then [char_of (48 + n)]
      else str_nat (n div 10) @ [char_of (48 + n mod 10)])"

declare str_nat.simps [simp del]

definition str_int :: "int \<Rightarrow> string" where
  "str_int i = (if i < 0 then CHR ''-'' # str_nat (nat (- i)) else str_nat (nat i))"

subsection \<open>\<open>json.dumps\<close>\<close>

text \<open>With the default \<open>ensure_ascii=True\<close>, a string is printed between double quotes
  (code point 0x22); the quote and the backslash (0x5C) are escaped with a backslash, the
  control characters that have a short escape use it, and every other character outside
  the printable ASCII range is printed as \<open>\u00XX\<close>.\<close>

definition hex_digit :: "nat \<Rightarrow> char" where
  "hex_digit n = ''0123456789abcdef'' ! n"

definition escape_char :: "char \<Rightarrow> string" where
  "escape_char c =
     (let n = (of_char c :: nat)
      in if n = 34 then [CHR 0x5C, CHR 0x22]
         else if n = 92 then [CHR 0x5C, CHR 0x5C]
         else if n = 8 then [CHR 0x5C, CHR ''b'']
         else if n = 12 then [CHR 0x5C, CHR ''f'']
         else if n = 10 then [CHR 0x5C, CHR ''n'']
         else if n = 13 then [CHR 0x5C, CHR ''r'']
         else if n = 9 then [CHR 0x5C, CHR ''t'']
         else if 32 \<le> n \<and> n \<le> 126 then [c]
         else [CHR 0x5C, CHR ''u'', CHR ''0'', CHR ''0'', hex_digit (n div 16), hex_digit (n mod 16)])"

definition quote :: "string \<Rightarrow> string" where
  "quote s = CHR 0x22 # concat (map escape_char s) @ [CHR 0x22]"

fun dumps :: "json \<Rightarrow> string" where
  "dumps JNull = ''null''"
| "dumps (JBool b) = (if b then ''true'' else ''false'')"
| "dumps (JInt i) = str_int i"
| "dumps (JFloat r) = r"
| "dumps (JStr s) = quote s"
| "dumps (JArr xs) = ''['' @ join '', '' (map dumps xs) @ '']''"
| "dumps (JObj kvs) =
     ''{'' @ join '', '' (map (\<lambda>(k, v). quote k @ '': '' @ dumps v) kvs) @ ''}''"

section \<open>The HTTP client\<close>

text \<open>
  A request is the URL and the headers the client was configured with (the headers httpx
  adds by itself and the ten-second timeout are left out). What comes back is a transport
  failure (\<open>client.get\<close> raises \<open>httpx.RequestError\<close>) or a response with its status code
  and its body. \<open>resp.json()\<close> hands the bytes of the body to \<open>json.loads\<close>, which first
  decodes them and then parses the text, so a body is one of three things: bytes that do
  not decode (not valid UTF-8), text that is not JSON, or a JSON value. The network is a
  function from requests to what comes back.
\<close>

datatype body = Undecodable | Malformed | Parsed json

record request =
  url :: string
  headers :: "(string \<times> string) list"

datatype response = TransportFailure | Response nat body

type_synonym net = "request \<Rightarrow> response"

datatype client = AsyncClient (client_headers: "(string \<times> string) list")

definition client_get :: "client \<Rightarrow> string \<Rightarrow> request" where
  "client_get c u = \<lparr>url = u, headers = client_headers c\<rparr>"

text \<open>\<open>await client.get(...)\<close>, \<open>resp.raise_for_status()\<close> (httpx raises for every status
  outside 200..299) and \<open>resp.json()\<close>: \<open>UnicodeDecodeError\<close> when the bytes do not decode,
  \<open>json.JSONDecodeError\<close> when the text is not JSON. (The interpreter's recursion limit, which
  \<open>json.loads\<close> can hit on very deeply nested input, is not modelled.)\<close>

definition received :: "response \<Rightarrow> exn + (nat \<times> body)" where
  "received r = (case r of TransportFailure \<Rightarrow> Inl RequestError | Response st b \<Rightarrow> Inr (st, b))"

definition is_success :: "nat \<Rightarrow> bool" where
  "is_success st = (200 \<le> st \<and> st \<le> 299)"

definition raise_for_status :: "nat \<Rightarrow> exn + unit" where
  "raise_for_status st = (if is_success st then Inr () else Inl HTTPStatusError)"

definition resp_json :: "body \<Rightarrow> exn + json" where
  "resp_json b =
     (case b of
        Undecodable \<Rightarrow> Inl UnicodeDecodeError
      | Malformed \<Rightarrow> Inl JSONDecodeError
      | Parsed data \<Rightarrow> Inr data)"

text \<open>The three steps that open every fetcher's \<open>try\<close> block.\<close>

definition get_json :: "response \<Rightarrow> exn + json" where
  "get_json r =
     bind_exn (received r) (\<lambda>(st, b).
     bind_exn (raise_for_status st) (\<lambda>_.
     resp_json b))"

text \<open>A coroutine that awaits one request: the request, and what it does with what comes
  back. \<open>await\<close> runs it against a network.\<close>

type_synonym task = "request \<times> (response \<Rightarrow> exn + json)"

definition await :: "net \<Rightarrow> task \<Rightarrow> exn + json" where
  "await nw t = snd t (nw (fst t))"

section \<open>The fetchers\<close>

subsection \<open>\<open>fetch_github_release\<close>\<close>

definition github_try :: "response \<Rightarrow> exn + json" where
  "github_try r =
     bind_exn (get_json r) (\<lambda>data.
     bind_exn (py_get data ''tag_name'' (JStr '''')) (\<lambda>t.
     Inr (if truthy t then t else JStr ''no release found'')))"

definition fetch_github_release :: "client \<Rightarrow> string \<Rightarrow> task" where
  "fetch_github_release c repo =
     (client_get c (''https://api.github.com/repos/'' @ repo @ ''/releases/latest''),
      \<lambda>r. catch [RequestError, HTTPStatusError] (JStr ''error fetching release'') (github_try r))"

subsection \<open>\<open>fetch_channel_version\<close>\<close>

text \<open>\<open>json.dumps(v).replace('"', '').partition('+')[0]\<close>.\<close>

definition release_head :: "json \<Rightarrow> string" where
  "release_head v = takeWhile (\<lambda>c. c \<noteq> CHR ''+'') (filter (\<lambda>c. c \<noteq> CHR 0x22) (dumps v))"

definition channel_try :: "response \<Rightarrow> exn + json" where
  "channel_try r =
     bind_exn (get_json r) (\<lambda>data.
     bind_exn (getitem_key data ''data'') (\<lambda>d.
     bind_exn (getitem_index d 0) (\<lambda>first.
     bind_exn (getitem_key first ''latest'') (\<lambda>latest.
     Inr (JStr (release_head latest))))))"

definition fetch_channel_version :: "client \<Rightarrow> string \<Rightarrow> task" where
  "fetch_channel_version c channel =
     (client_get c (''https://update.'' @ channel @ ''.io/v1-release/channels''),
      \<lambda>r. catch [RequestError, HTTPStatusError, JSONDecodeError, KeyError, IndexError]
             (JStr ''upstream server issue'') (channel_try r))"

subsection \<open>\<open>fetch_dockerhub_tags\<close>\<close>

text \<open>The loop of \<open>parse_version\<close>: one integer for each part, in order.\<close>

fun parse_parts :: "string list \<Rightarrow> exn + int list" where
  "parse_parts [] = Inr []"
| "parse_parts (part # rest) =
     (let digits = filter isdigit part
      in bind_exn (if digits \<noteq> [] then py_int digits else Inr 0) (\<lambda>n.
         bind_exn (parse_parts rest) (\<lambda>ns.
         Inr (n # ns))))"

definition parse_version :: "string \<Rightarrow> exn + int list" where
  "parse_version tag_name = parse_parts (split CHR ''.'' tag_name)"

text \<open>\<open>a > b\<close> on tuples of integers: the first position where they differ decides, and
  when one is a prefix of the other the longer one is the greater.\<close>

fun tuple_gt :: "int list \<Rightarrow> int list \<Rightarrow> bool" where
  "tuple_gt [] ys = False"
| "tuple_gt (x # xs) [] = True"
| "tuple_gt (x # xs) (y # ys) = (if x = y then tuple_gt xs ys else x > y)"

text \<open>\<open>max(tags, key=parse_version)\<close> on a non-empty list: the key of every item is
  computed, in order, and an item replaces the best one so far only when its key is
  strictly greater.\<close>

fun max_loop :: "string \<Rightarrow> int list \<Rightarrow> string list \<Rightarrow> exn + string" where
  "max_loop best bk [] = Inr best"
| "max_loop best bk (t # ts) =
     bind_exn (parse_version t) (\<lambda>k.
     if tuple_gt k bk then max_loop t k ts else max_loop best bk ts)"

fun py_max :: "string list \<Rightarrow> exn + string" where
  "py_max [] = Inl ValueError"
| "py_max (t # ts) = bind_exn (parse_version t) (\<lambda>k. max_loop t k ts)"

definition excluded :: "string list" where
  "excluded = [''ppc'', ''dev'', ''beta'', ''ea'']"

text \<open>The condition and the element of the list comprehension for one entry of
  \<open>results\<close>: \<open>Some name\<close> when the entry is kept. A name that is true and is not a string
  has no \<open>lower\<close> method.\<close>

definition valid_tag :: "json \<Rightarrow> exn + string option" where
  "valid_tag tag =
     bind_exn (py_get tag ''name'' (JStr '''')) (\<lambda>name.
     if \<not> truthy name then Inr None
     else (case name of
             JStr s \<Rightarrow> Inr (if list_ex (\<lambda>ex. contains ex (lower s)) excluded then None else Some s)
           | _ \<Rightarrow> Inl AttributeError))"

fun valid_tags :: "json list \<Rightarrow> exn + string list" where
  "valid_tags [] = Inr []"
| "valid_tags (tag # rest) =
     bind_exn (valid_tag tag) (\<lambda>keep.
     bind_exn (valid_tags rest) (\<lambda>names.
     Inr (case keep of None \<Rightarrow> names | Some s \<Rightarrow> s # names)))"

definition dockerhub_try :: "response \<Rightarrow> exn + json" where
  "dockerhub_try r =
     bind_exn (get_json r) (\<lambda>data.
     bind_exn (py_get data ''results'' JNull) (\<lambda>results.
     bind_exn (if truthy results then bind_exn (py_len results) (\<lambda>n. Inr (n > 0)) else Inr False)
       (\<lambda>nonempty.
     if nonempty then
       bind_exn (py_iter results) (\<lambda>tags.
       bind_exn (valid_tags tags) (\<lambda>valid.
       if valid \<noteq> [] then bind_exn (py_max valid) (\<lambda>t. Inr (JStr t))
       else Inr (JStr ''no valid tags found'')))
     else Inr (JStr ''no tags found''))))"

definition fetch_dockerhub_tags :: "client \<Rightarrow> string \<Rightarrow> string \<Rightarrow> task" where
  "fetch_dockerhub_tags c repo name_filter =
     (client_get c (''https://hub.docker.com/v2/repositories/'' @ repo @ ''/tags?name=''
                     @ name_filter @ ''&page_size=100''),
      \<lambda>r. catch [RequestError, HTTPStatusError, JSONDecodeError, KeyError, IndexError]
             (JStr ''error fetching tags'') (dockerhub_try r))"

section \<open>Version aggregation\<close>

text \<open>\<open>GITHUB_TOKEN\<close> is what \<open>os.getenv\<close> returned: \<open>None\<close> when the variable is not set.\<close>

definition HEADERS :: "string option \<Rightarrow> (string \<times> string) list" where
  "HEADERS GITHUB_TOKEN =
     (case GITHUB_TOKEN of
        None \<Rightarrow> []
      | Some tok \<Rightarrow> if tok \<noteq> [] then [(''Authorization'', ''Bearer '' @ tok)] else [])"

text \<open>The \<open>sources\<close> dict, in insertion order: name, source type, identifier, options.\<close>

definition sources :: "(string \<times> string \<times> string \<times> (string \<times> string) list) list" where
  "sources =
     [(''rancher'', ''github'', ''rancher/rancher'', []),
      (''rke2-stable'', ''channel'', ''rke2'', []),
      (''k3s-stable'', ''channel'', ''k3s'', []),
      (''longhorn'', ''github'', ''longhorn/longhorn'', []),
      (''cert-manager'', ''github'', ''cert-manager/cert-manager'', []),
      (''harvester'', ''github'', ''harvester/harvester'', []),
      (''hauler'', ''github'', ''hauler-dev/hauler'', []),
      (''portworx'', ''dockerhub'', ''portworx/px-pure-csi-driver'', [(''name_filter'', ''25'')]),
      (''px_oper'', ''dockerhub'', ''portworx/px-operator'', [(''name_filter'', ''25'')]),
      (''stork'', ''dockerhub'', ''openstorage/stork'', [(''name_filter'', ''25'')]),
      (''pxenterprise'', ''dockerhub'', ''portworx/px-enterprise'', [(''name_filter'', ''3'')])]"

text \<open>The loop that fills \<open>tasks\<close>: an entry whose type is none of the three appends
  nothing. \<open>**options\<close> passes \<open>name_filter\<close>, whose default is \<open>"version"\<close>.\<close>

fun make_tasks :: "client \<Rightarrow> (string \<times> string \<times> string \<times> (string \<times> string) list) list \<Rightarrow> task list" where
  "make_tasks c [] = []"
| "make_tasks c ((name, source_type, identifier, options) # rest) =
     (if source_type = ''github'' then [fetch_github_release c identifier]
      else if source_type = ''channel'' then [fetch_channel_version c identifier]
      else if source_type = ''dockerhub'' then
        [fetch_dockerhub_tags c identifier
           (case map_of options ''name_filter'' of None \<Rightarrow> ''version'' | Some f \<Rightarrow> f)]
      else [])
     @ make_tasks c rest"

text \<open>\<open>asyncio.gather\<close>: the results in the order of the tasks, or the exception of a task
  that raised. (When several tasks raise, which exception comes out depends on the order
  in which they finish; the model takes the first in task order.)\<close>

fun gather :: "net \<Rightarrow> task list \<Rightarrow> exn + json list" where
  "gather nw [] = Inr []"
| "gather nw (t # ts) =
     bind_exn (await nw t) (\<lambda>r.
     bind_exn (gather nw ts) (\<lambda>rs.
     Inr (r # rs)))"

text \<open>The returned dict is the list of its items: the keys of \<open>sources\<close> are distinct, so
  \<open>dict(zip(...))\<close> keeps every pair.\<close>

definition get_versions_async :: "string option \<Rightarrow> net \<Rightarrow> exn + (string \<times> json) list" where
  "get_versions_async GITHUB_TOKEN nw =
     bind_exn (gather nw (make_tasks (AsyncClient (HEADERS GITHUB_TOKEN)) sources)) (\<lambda>results.
     Inr (zip (map fst sources) results))"

section \<open>The cache, the refresh loop and the routes\<close>

datatype log_line =
    Refreshing
  | Cache_updated "(string \<times> json) list"
  | Error_refreshing exn

record state =
  version_cache :: "(string \<times> json) list"
  logged :: "log_line list"

definition initial_state :: state where
  "initial_state = \<lparr>version_cache = [], logged = []\<rparr>"

text \<open>One pass through the body of \<open>while True\<close> in \<open>refresh_versions\<close>, the sleep apart;
  \<open>except Exception\<close> handles every exception of the model. (The lines the fetchers log
  themselves are not recorded.)\<close>

definition refresh_once :: "string option \<Rightarrow> net \<Rightarrow> state \<Rightarrow> state" where
  "refresh_once GITHUB_TOKEN nw s =
     (let s1 = s\<lparr>logged := logged s @ [Refreshing]\<rparr>
      in case get_versions_async GITHUB_TOKEN nw of
           Inr snapshot \<Rightarrow>
             s1\<lparr>version_cache := snapshot, logged := logged s1 @ [Cache_updated snapshot]\<rparr>
         | Inl e \<Rightarrow> s1\<lparr>logged := logged s1 @ [Error_refreshing e]\<rparr>)"

text \<open>The loop never returns; \<open>refresh_versions tok nws s\<close> is the state after as many
  passes as \<open>nws\<close> has networks, the network of each pass in turn.\<close>

fun refresh_versions :: "string option \<Rightarrow> net list \<Rightarrow> state \<Rightarrow> state" where
  "refresh_versions GITHUB_TOKEN [] s = s"
| "refresh_versions GITHUB_TOKEN (nw # nws) s =
     refresh_versions GITHUB_TOKEN nws (refresh_once GITHUB_TOKEN nw s)"

text \<open>\<open>d.get(k, default)\<close> on the cache.\<close>

definition dict_get :: "(string \<times> json) list \<Rightarrow> string \<Rightarrow> json \<Rightarrow> json" where
  "dict_get d k dflt = (case map_of d k of None \<Rightarrow> dflt | Some v \<Rightarrow> v)"

text \<open>The route \<open>/json\<close>: the payload handed to \<open>jsonify\<close>, the status, and the state it
  leaves.\<close>

definition json_all_the_things :: "state \<Rightarrow> ((string \<times> json) list \<times> nat) \<times> state" where
  "json_all_the_things s = ((version_cache s, 200), s)"

text \<open>The route \<open>/\<close>: the variables handed to the template, and the state it leaves.\<close>

definition curl_all_the_things :: "state \<Rightarrow> (string \<times> json) list \<times> state" where
  "curl_all_the_things s =
     ([(''rancher_ver'', dict_get (version_cache s) ''rancher'' (JStr ''loading...'')),
       (''rke_ver'', dict_get (version_cache s) ''rke2-stable'' (JStr ''loading...'')),
       (''k3s_ver'', dict_get (version_cache s) ''k3s-stable'' (JStr ''loading...'')),
       (''longhorn_ver'', dict_get (version_cache s) ''longhorn'' (JStr ''loading...'')),
       (''cert_ver'', dict_get (version_cache s) ''cert-manager'' (JStr ''loading...'')),
       (''harv_ver'', dict_get (version_cache s) ''harvester'' (JStr ''loading...'')),
       (''hauler_ver'', dict_get (version_cache s) ''hauler'' (JStr ''loading...'')),
       (''portworx_ver'', dict_get (version_cache s) ''portworx'' (JStr ''loading...'')),
       (''pxe_ver'', dict_get (version_cache s) ''pxenterprise'' (JStr ''loading...'')),
       (''px_oper_ver'', dict_get (version_cache s) ''px_oper'' (JStr ''loading...'')),
       (''stork_ver'', dict_get (version_cache s) ''stork'' (JStr ''loading...''))],
      s)"

text \<open>The entry point: the warm-up assignment, whose exception ends the process before
  \<open>app.run\<close> serves anything.\<close>

definition warm_up :: "string option \<Rightarrow> net \<Rightarrow> state \<Rightarrow> exn + state" where
  "warm_up GITHUB_TOKEN nw s =
     bind_exn (get_versions_async GITHUB_TOKEN nw) (\<lambda>snapshot.
     Inr (s\<lparr>version_cache := snapshot\<rparr>))"

text \<open>
  Running the module as a script: the refresh thread is started while the module loads,
  so any number of its passes may assign the cache before the warm-up does (\<open>before\<close>) and
  between the warm-up and a request (\<open>after\<close>). An assignment to the global is one step, so
  the cache a request reads is the result of these assignments in some order.
\<close>

definition startup :: "string option \<Rightarrow> net list \<Rightarrow> net \<Rightarrow> net list \<Rightarrow> exn + state" where
  "startup GITHUB_TOKEN before nw after =
     bind_exn (warm_up GITHUB_TOKEN nw (refresh_versions GITHUB_TOKEN before initial_state)) (\<lambda>s.
     Inr (refresh_versions GITHUB_TOKEN after s))"

section \<open>Notions used in the statements\<close>

text \<open>The network that answers every request with \<open>r\<close>.\<close>

definition respond :: "response \<Rightarrow> net" where
  "respond r = (\<lambda>_. r)"

subsection \<open>The version ordering, in the words of the specification\<close>

text \<open>The value of a string of decimal digits, position by position; the empty string
  has the value 0.\<close>

definition digits_value :: "string \<Rightarrow> int" where
  "digits_value ds =
     (\<Sum>i < length ds. (int (of_char (ds ! i)) - 48) * 10 ^ (length ds - 1 - i))"

text \<open>Split the tag on the dot; of each component keep the digit characters and read
  them as an integer.\<close>

definition version_key :: "string \<Rightarrow> int list" where
  "version_key t = map (\<lambda>part. digits_value (filter isdigit part)) (split CHR ''.'' t)"

text \<open>The specification's comparison: lexicographic, the shorter sequence filled up with
  zeros at its end.\<close>

definition pad :: "nat \<Rightarrow> int list \<Rightarrow> int list" where
  "pad n xs = xs @ replicate (n - length xs) 0"

definition spec_gt :: "int list \<Rightarrow> int list \<Rightarrow> bool" where
  "spec_gt a b =
     (let n = max (length a) (length b) in ord_class.lexordp (pad n b) (pad n a))"

text \<open>Every digit character of the string is a decimal digit.\<close>

definition decimal_digits :: "string \<Rightarrow> bool" where
  "decimal_digits t = list_all (\<lambda>c. isdigit c \<longrightarrow> isdecimal c) t"

text \<open>\<open>t\<close> stands in \<open>tags\<close> at a position where its key is greater than the key of every
  earlier tag, and no tag of the list has a greater key: the first of the greatest.\<close>

definition first_greatest :: "string list \<Rightarrow> string \<Rightarrow> bool" where
  "first_greatest tags t =
     (\<exists>i < length tags. tags ! i = t
        \<and> (\<forall>j < i. tuple_gt (version_key t) (version_key (tags ! j)))
        \<and> (\<forall>j < length tags. \<not> tuple_gt (version_key (tags ! j)) (version_key t)))"

subsection \<open>The tag filter\<close>

text \<open>The specification's filter: a tag is excluded when it contains one of the four
  words, letter case ignored.\<close>

definition spec_excluded :: "string \<Rightarrow> bool" where
  "spec_excluded t = list_ex (\<lambda>ex. contains ex (lower t)) [''ppc'', ''dev'', ''beta'', ''ea'']"

definition spec_filtered :: "string list \<Rightarrow> string list" where
  "spec_filtered tags = filter (\<lambda>t. \<not> spec_excluded t) tags"

text \<open>An entry of \<open>results\<close> as the registry sends it, or nearly: an object whose \<open>name\<close>,
  when it is there and true, is a string. Its name is the empty string when the object
  has none.\<close>

definition tag_entry :: "json \<Rightarrow> bool" where
  "tag_entry e =
     (case e of
        JObj kvs \<Rightarrow>
          (case map_of kvs ''name'' of
             None \<Rightarrow> True
           | Some v \<Rightarrow> (case v of JStr s \<Rightarrow> True | _ \<Rightarrow> \<not> truthy v))
      | _ \<Rightarrow> False)"

definition entry_name :: "json \<Rightarrow> string" where
  "entry_name e =
     (case e of
        JObj kvs \<Rightarrow> (case map_of kvs ''name'' of Some (JStr s) \<Rightarrow> s | _ \<Rightarrow> [])
      | _ \<Rightarrow> [])"

subsection \<open>The release head\<close>

text \<open>The specification's reading of the channel fetcher: the quote characters around
  the serialised value are stripped, and the text is cut at the first plus sign.\<close>

definition strip_quotes :: "string \<Rightarrow> string" where
  "strip_quotes s =
     rev (dropWhile (\<lambda>c. c = CHR 0x22) (rev (dropWhile (\<lambda>c. c = CHR 0x22) s)))"

definition spec_release_head :: "json \<Rightarrow> string" where
  "spec_release_head v = takeWhile (\<lambda>c. c \<noteq> CHR ''+'') (strip_quotes (dumps v))"

text \<open>A printable ASCII character other than the quote and the backslash: \<open>json.dumps\<close>
  prints it as it is.\<close>

definition plain_char :: "char \<Rightarrow> bool" where
  "plain_char c =
     (32 \<le> (of_char c :: nat) \<and> (of_char c :: nat) \<le> 126
      \<and> (of_char c :: nat) \<noteq> 34 \<and> (of_char c :: nat) \<noteq> 92)"

section \<open>Basic facts\<close>

lemma bind_exn_simps [simp]:
  "bind_exn (Inl e) f = Inl e"
  "bind_exn (Inr x) f = f x"
  by (simp_all add: bind_exn_def)

lemma catch_simps [simp]:
  "catch handled sentinel (Inr v) = Inr v"
  "catch handled sentinel (Inl e) = (if e \<in> set handled then Inr sentinel else Inl e)"
  by (simp_all add: catch_def)

lemma get_json_simps [simp]:
  "get_json TransportFailure = Inl RequestError"
  "get_json (Response st b) =
     (if is_success st
      then (case b of
              Undecodable \<Rightarrow> Inl UnicodeDecodeError
            | Malformed \<Rightarrow> Inl JSONDecodeError
            | Parsed data \<Rightarrow> Inr data)
      else Inl HTTPStatusError)"
  by (simp_all add: get_json_def received_def raise_for_status_def resp_json_def)

lemma await_respond [simp]: "await (respond r) t = snd t r"
  by (simp add: await_def respond_def)

text \<open>What a task returns depends on the network only through the answer to its own
  request, so the statements below fix that answer with \<open>respond\<close>.\<close>

lemma await_depends_on_answer: "await nw t = await (respond (nw (fst t))) t"
  by (simp add: await_def respond_def)

section \<open>The release-tag fetcher\<close>

text \<open>
  On a 2xx response whose body is a JSON object the fetcher returns the value under
  \<open>tag_name\<close> when it is true (for a string: not empty), and \<open>no release found\<close> when the key
  is missing or its value is false (the empty string, \<open>null\<close>, zero, an empty array or
  object); on a transport error and on any status outside 2xx it returns
  \<open>error fetching release\<close>.
\<close>

lemma release_tag_on_object:
  "(is_success st \<and> map_of kvs ''tag_name'' = Some v \<and> truthy v \<longrightarrow>
      await (respond (Response st (Parsed (JObj kvs)))) (fetch_github_release c repo) = Inr v)
   \<and> (is_success st \<and> (map_of kvs ''tag_name'' = None
         \<or> (\<exists>v. map_of kvs ''tag_name'' = Some v \<and> \<not> truthy v)) \<longrightarrow>
      await (respond (Response st (Parsed (JObj kvs)))) (fetch_github_release c repo)
        = Inr (JStr ''no release found''))
   \<and> await (respond TransportFailure) (fetch_github_release c repo)
        = Inr (JStr ''error fetching release'')
   \<and> (\<not> is_success st \<longrightarrow>
      await (respond (Response st b)) (fetch_github_release c repo)
        = Inr (JStr ''error fetching release''))"
  by (auto simp: fetch_github_release_def github_try_def)

text \<open>The inputs of the specification's test: \<open>{"tag_name": "v1.2.3"}\<close>, an empty and a
  missing \<open>tag_name\<close>, and the status 500.\<close>

lemma release_tag_examples:
  "await (respond (Response 200 (Parsed (JObj [(''tag_name'', JStr ''v1.2.3'')]))))
      (fetch_github_release (AsyncClient []) ''rancher/rancher'') = Inr (JStr ''v1.2.3'')
   \<and> await (respond (Response 200 (Parsed (JObj [(''tag_name'', JStr '''')]))))
      (fetch_github_release (AsyncClient []) ''rancher/rancher'') = Inr (JStr ''no release found'')
   \<and> await (respond (Response 200 (Parsed (JObj []))))
      (fetch_github_release (AsyncClient []) ''rancher/rancher'') = Inr (JStr ''no release found'')
   \<and> await (respond (Response 500 Malformed))
      (fetch_github_release (AsyncClient []) ''rancher/rancher'') = Inr (JStr ''error fetching release'')"
  by (simp add: fetch_github_release_def github_try_def is_success_def)

text \<open>
  Claim C4. The claim speaks of every release-tag fetch: a successful response without a
  \<open>tag_name\<close> returns \<open>no release found\<close>. In the code this holds for bodies that are JSON
  objects only. A 2xx response whose body is not JSON (an empty body, a page of HTML) has no
  \<open>tag_name\<close> either, and there \<open>resp.json()\<close> raises \<open>JSONDecodeError\<close>, which the \<open>except\<close>
  clause of this fetcher does not name; a body that is JSON but not an object raises
  \<open>AttributeError\<close>. Both leave the fetcher. The two other fetchers name \<open>JSONDecodeError\<close>
  and return their sentinel on the same response.
\<close>

theorem release_fetch_raises_on_success_without_json:
  "await (respond (Response 200 Malformed)) (fetch_github_release (AsyncClient []) ''rancher/rancher'')
     = Inl JSONDecodeError
   \<and> await (respond (Response 200 (Parsed (JArr [])))) (fetch_github_release (AsyncClient []) ''rancher/rancher'')
     = Inl AttributeError
   \<and> await (respond (Response 200 Malformed)) (fetch_channel_version (AsyncClient []) ''rke2'')
     = Inr (JStr ''upstream server issue'')
   \<and> await (respond (Response 200 Malformed))
       (fetch_dockerhub_tags (AsyncClient []) ''portworx/px-operator'' ''25'')
     = Inr (JStr ''error fetching tags'')"
  by (simp add: fetch_github_release_def github_try_def fetch_channel_version_def channel_try_def
      fetch_dockerhub_tags_def dockerhub_try_def is_success_def)

section \<open>The channel fetcher\<close>

lemma escape_plain: "plain_char c \<Longrightarrow> escape_char c = [c]"
  by (simp add: plain_char_def escape_char_def Let_def)

lemma concat_escape_plain: "list_all plain_char s \<Longrightarrow> concat (map escape_char s) = s"
  by (induction s) (simp_all add: escape_plain)

lemma plain_not_quote: "plain_char c \<Longrightarrow> c \<noteq> CHR 0x22"
  by (auto simp: plain_char_def)

lemma release_head_plain:
  assumes "list_all plain_char s"
  shows "release_head (JStr s) = takeWhile (\<lambda>c. c \<noteq> CHR ''+'') s"
proof -
  have "filter (\<lambda>c. c \<noteq> CHR 0x22) s = s"
    using assms by (auto simp: list_all_iff plain_not_quote)
  then show ?thesis
    using assms by (simp add: release_head_def quote_def concat_escape_plain)
qed

text \<open>
  The value under \<open>latest\<close> need not be a string: whatever it is, its JSON text without
  the quote characters is what the fetcher works on.
\<close>

lemma release_head_not_only_strings:
  "release_head (JArr [JStr ''v1'', JInt 2]) = ''[v1, 2]''
   \<and> release_head JNull = ''null''"
  by code_simp

text \<open>
  Claim C3, as the code has it. On a 2xx response whose JSON object has under \<open>data\<close> an
  array that starts with an object with the key \<open>latest\<close>, the fetcher returns the release
  head of that value: its JSON text with every quote character removed, cut at the first
  plus sign. For a string of printable ASCII characters without quote and backslash this
  is the string itself cut at its first plus sign. A transport failure, a status outside
  2xx, a body whose text is not JSON (\<open>JSONDecodeError\<close>), a missing \<open>data\<close> or \<open>latest\<close> key and
  an empty array give \<open>upstream server issue\<close>. A body whose bytes do not decode is not
  among these (lemma \<open>undecodable_body_raises\<close>).
\<close>

theorem fetch_channel_version_cases:
  "(is_success st \<and> map_of kvs ''data'' = Some (JArr (JObj e # rest)) \<and> map_of e ''latest'' = Some v \<longrightarrow>
      await (respond (Response st (Parsed (JObj kvs)))) (fetch_channel_version c channel)
        = Inr (JStr (release_head v)))
   \<and> (list_all plain_char s \<longrightarrow> release_head (JStr s) = takeWhile (\<lambda>c. c \<noteq> CHR ''+'') s)
   \<and> await (respond TransportFailure) (fetch_channel_version c channel)
        = Inr (JStr ''upstream server issue'')
   \<and> (\<not> is_success st' \<longrightarrow>
        await (respond (Response st' b)) (fetch_channel_version c channel)
          = Inr (JStr ''upstream server issue''))
   \<and> await (respond (Response st Malformed)) (fetch_channel_version c channel)
        = Inr (JStr ''upstream server issue'')
   \<and> (map_of kvs' ''data'' = None \<or> map_of kvs' ''data'' = Some (JArr [])
        \<or> (\<exists>e' rest'. map_of kvs' ''data'' = Some (JArr (JObj e' # rest')) \<and> map_of e' ''latest'' = None) \<longrightarrow>
        await (respond (Response st (Parsed (JObj kvs')))) (fetch_channel_version c channel)
          = Inr (JStr ''upstream server issue''))"
  by (auto simp: fetch_channel_version_def channel_try_def release_head_plain)

text \<open>
  The response of the specification's test, a body whose text is not JSON, an empty
  array and the status 404.
\<close>

theorem fetch_channel_version_cases_witness:
  "await (respond (Response 200 (Parsed (JObj [(''data'', JArr [JObj [(''latest'', JStr ''v1.31.2+rke2r1'')]])]))))
      (fetch_channel_version (AsyncClient []) ''rke2'') = Inr (JStr ''v1.31.2'')
   \<and> await (respond (Response 200 Malformed)) (fetch_channel_version (AsyncClient []) ''rke2'')
      = Inr (JStr ''upstream server issue'')
   \<and> await (respond (Response 200 (Parsed (JObj [(''data'', JArr [])]))))
      (fetch_channel_version (AsyncClient []) ''rke2'') = Inr (JStr ''upstream server issue'')
   \<and> await (respond (Response 404 Malformed)) (fetch_channel_version (AsyncClient []) ''rke2'')
      = Inr (JStr ''upstream server issue'')"
proof -
  have ok: "is_success 200" and bad: "\<not> is_success 404"
    by (simp_all add: is_success_def)
  have p: "list_all plain_char ''v1.31.2+rke2r1''"
    by (simp add: plain_char_def)
  from fetch_channel_version_cases [of 200 "[(''data'', JArr [JObj [(''latest'', JStr ''v1.31.2+rke2r1'')]])]"
      "[(''latest'', JStr ''v1.31.2+rke2r1'')]" "[]" "JStr ''v1.31.2+rke2r1''" "AsyncClient []" "''rke2''"
      "''v1.31.2+rke2r1''" 404 Malformed "[(''data'', JArr [])]"] ok bad p
  show ?thesis by simp
qed

text \<open>
  Claim C3 as it is written fails on a version string with a quote character inside,
  here the three characters \<open>a\<close>, quote, \<open>b\<close>. Its JSON text has a backslash before the inner
  quote; stripping the quotes around that text leaves \<open>a\<close>, backslash, quote, \<open>b\<close>, while the
  code removes the inner quote too and returns \<open>a\<close>, backslash, \<open>b\<close>, which is not the version
  string either.
\<close>

theorem inner_quote_is_removed:
  "await (respond (Response 200 (Parsed (JObj [(''data'',
        JArr [JObj [(''latest'', JStr [CHR ''a'', CHR 0x22, CHR ''b''])]])]))))
      (fetch_channel_version (AsyncClient []) ''rke2'') = Inr (JStr [CHR ''a'', CHR 0x5C, CHR ''b''])
   \<and> release_head (JStr [CHR ''a'', CHR 0x22, CHR ''b'']) = [CHR ''a'', CHR 0x5C, CHR ''b'']
   \<and> spec_release_head (JStr [CHR ''a'', CHR 0x22, CHR ''b'']) = [CHR ''a'', CHR 0x5C, CHR 0x22, CHR ''b'']"
  by (simp add: fetch_channel_version_def channel_try_def is_success_def release_head_def
      spec_release_head_def strip_quotes_def quote_def escape_char_def)

section \<open>The registry-tag fetcher\<close>

subsection \<open>Python's order on tuples and the specification's order\<close>

lemma tuple_gt_lexordp: "tuple_gt a b = ord_class.lexordp b a"
  by (induction a b rule: tuple_gt.induct) auto

lemma tuple_gt_trans: "tuple_gt a b \<Longrightarrow> tuple_gt b c \<Longrightarrow> tuple_gt a c"
  unfolding tuple_gt_lexordp by (rule lexordp_trans)

lemma tuple_gt_total: "tuple_gt a b \<or> a = b \<or> tuple_gt b a"
  unfolding tuple_gt_lexordp using lexordp_linear [of b a] by auto

lemma tuple_gt_irrefl: "\<not> tuple_gt a a"
  unfolding tuple_gt_lexordp by (rule lexordp_irreflexive')

lemma tuple_gt_below: "\<not> tuple_gt k bk \<Longrightarrow> tuple_gt r bk \<Longrightarrow> tuple_gt r k"
  using tuple_gt_total [of k bk] tuple_gt_trans [of r bk k] by auto

lemma spec_gt_same_length: "length a = length b \<Longrightarrow> spec_gt a b = tuple_gt a b"
  by (simp add: spec_gt_def pad_def tuple_gt_lexordp)

lemma pad_Cons: "pad (Suc n) (x # xs) = x # pad n xs"
  by (simp add: pad_def)

lemma pad_Nil: "pad n [] = replicate n 0"
  by (simp add: pad_def)

lemma zeros_least: "\<forall>x \<in> set b. (0::int) \<le> x \<Longrightarrow> \<not> ord_class.lexordp b (replicate (length b) 0)"
  by (induction b) auto

lemma zeros_below: "\<forall>x \<in> set a. (0::int) \<le> x \<Longrightarrow>
  ord_class.lexordp (replicate (length a) 0) a \<or> a = replicate (length a) 0"
  by (induction a) auto

lemma tuple_gt_spec_gt:
  "\<forall>x \<in> set a. 0 \<le> x \<Longrightarrow> \<forall>x \<in> set b. 0 \<le> x \<Longrightarrow>
   tuple_gt a b \<longleftrightarrow>
     spec_gt a b
     \<or> (pad (max (length a) (length b)) a = pad (max (length a) (length b)) b \<and> length b < length a)"
proof (induction a b rule: tuple_gt.induct)
  case (1 ys)
  then show ?case
    using zeros_least [of ys] by (simp add: spec_gt_def pad_def)
next
  case (2 x xs)
  then show ?case
    using zeros_below [of "x # xs"] by (auto simp: spec_gt_def pad_def)
next
  case (3 x xs y ys)
  then show ?case
    by (auto simp: spec_gt_def pad_def Let_def)
qed

subsection \<open>\<open>parse_version\<close> computes the version key\<close>

lemma horner:
  "foldl (\<lambda>n c. 10 * n + f c) a ds
     = a * 10 ^ length ds + (\<Sum>i < length ds. f (ds ! i) * 10 ^ (length ds - 1 - i))"
  for a :: int
proof (induction ds arbitrary: a)
  case Nil
  then show ?case by simp
next
  case (Cons c ds)
  have shift: "(\<Sum>i < Suc (length ds). f ((c # ds) ! i) * 10 ^ (Suc (length ds) - 1 - i))
      = f c * 10 ^ length ds + (\<Sum>i < length ds. f (ds ! i) * 10 ^ (length ds - 1 - i))"
    by (simp add: sum.lessThan_Suc_shift del: sum.lessThan_Suc)
  have "foldl (\<lambda>n c. 10 * n + f c) a (c # ds) = foldl (\<lambda>n c. 10 * n + f c) (10 * a + f c) ds"
    by simp
  also have "\<dots> = (10 * a + f c) * 10 ^ length ds
      + (\<Sum>i < length ds. f (ds ! i) * 10 ^ (length ds - 1 - i))"
    by (rule Cons.IH)
  also have "\<dots> = a * 10 ^ length (c # ds)
      + (\<Sum>i < length (c # ds). f ((c # ds) ! i) * 10 ^ (length (c # ds) - 1 - i))"
    using shift by (simp add: algebra_simps del: sum.lessThan_Suc)
  finally show ?case .
qed

lemma py_int_decimal:
  "ds \<noteq> [] \<Longrightarrow> list_all isdecimal ds \<Longrightarrow> py_int ds = Inr (digits_value ds)"
  by (simp add: py_int_def digits_value_def horner [where a = 0, simplified])

lemma digits_value_Nil [simp]: "digits_value [] = 0"
  by (simp add: digits_value_def)

lemma split_not_Nil [simp]: "split d s \<noteq> []"
  by (induction s) (auto simp: Let_def)

lemma split_chars: "p \<in> set (split d s) \<Longrightarrow> set p \<subseteq> set s"
proof (induction s arbitrary: p)
  case Nil
  then show ?case by simp
next
  case (Cons c cs)
  show ?case
  proof (cases "c = d")
    case True
    with Cons show ?thesis by auto
  next
    case False
    obtain q qs where q: "split d cs = q # qs"
      using split_not_Nil [of d cs] by (cases "split d cs") auto
    with False Cons.prems have "p = c # q \<or> p \<in> set qs"
      by (auto simp: Let_def)
    then show ?thesis
    proof
      assume "p = c # q"
      with Cons.IH [of q] q show ?thesis by auto
    next
      assume "p \<in> set qs"
      with Cons.IH [of p] q show ?thesis by auto
    qed
  qed
qed

lemma decimal_digits_filter:
  "decimal_digits p \<Longrightarrow> list_all isdecimal (filter isdigit p)"
  by (induction p) (auto simp: decimal_digits_def)

lemma decimal_digits_subset:
  "decimal_digits s \<Longrightarrow> set p \<subseteq> set s \<Longrightarrow> decimal_digits p"
  by (auto simp: decimal_digits_def list_all_iff)

lemma parse_parts_decimal:
  "\<forall>p \<in> set ps. decimal_digits p \<Longrightarrow>
   parse_parts ps = Inr (map (\<lambda>part. digits_value (filter isdigit part)) ps)"
proof (induction ps)
  case Nil
  then show ?case by simp
next
  case (Cons p ps)
  then have d: "list_all isdecimal (filter isdigit p)"
    by (simp add: decimal_digits_filter)
  from Cons have ih: "parse_parts ps = Inr (map (\<lambda>part. digits_value (filter isdigit part)) ps)"
    by simp
  show ?case
    using d ih by (simp add: Let_def py_int_decimal)
qed

lemma parse_version_decimal:
  assumes "decimal_digits t"
  shows "parse_version t = Inr (version_key t)"
proof -
  have "\<forall>p \<in> set (split CHR ''.'' t). decimal_digits p"
    using assms split_chars decimal_digits_subset by blast
  then show ?thesis
    by (simp add: parse_version_def version_key_def parse_parts_decimal)
qed

lemma isdecimal_value: "isdecimal c \<Longrightarrow> 0 \<le> int (of_char c) - 48"
  by (simp add: isdecimal_def)

lemma digits_value_nonneg: "list_all isdecimal ds \<Longrightarrow> 0 \<le> digits_value ds"
  unfolding digits_value_def
  by (rule sum_nonneg) (auto simp: list_all_length isdecimal_def)

lemma version_key_nonneg:
  assumes "decimal_digits t"
  shows "\<forall>x \<in> set (version_key t). 0 \<le> x"
proof -
  have "\<forall>p \<in> set (split CHR ''.'' t). decimal_digits p"
    using assms split_chars decimal_digits_subset by blast
  then show ?thesis
    by (auto simp: version_key_def intro!: digits_value_nonneg decimal_digits_filter)
qed

subsection \<open>What \<open>max\<close> selects and what the filter keeps\<close>

text \<open>The loop of \<open>max\<close>, started with \<open>best\<close> and its key: it returns \<open>best\<close> when
  no later tag has a greater key, and otherwise the first of the greatest later tags.\<close>

lemma max_loop_result:
  assumes "\<forall>t \<in> set ts. decimal_digits t"
  shows "\<exists>r. max_loop best bk ts = Inr r
    \<and> ((r = best \<and> (\<forall>u \<in> set ts. \<not> tuple_gt (version_key u) bk))
       \<or> (\<exists>pre post. ts = pre @ r # post \<and> tuple_gt (version_key r) bk
             \<and> (\<forall>u \<in> set pre. tuple_gt (version_key r) (version_key u))
             \<and> (\<forall>u \<in> set post. \<not> tuple_gt (version_key u) (version_key r))))"
  using assms
proof (induction ts arbitrary: best bk)
  case Nil
  then show ?case by simp
next
  case (Cons t ts)
  let ?k = "version_key t"
  have pv: "parse_version t = Inr ?k"
    using Cons.prems by (simp add: parse_version_decimal)
  have rest: "\<forall>u \<in> set ts. decimal_digits u"
    using Cons.prems by simp
  show ?case
  proof (cases "tuple_gt ?k bk")
    case True
    from Cons.IH [OF rest, of t ?k] obtain r where
      r: "max_loop t ?k ts = Inr r"
      and alt: "(r = t \<and> (\<forall>u \<in> set ts. \<not> tuple_gt (version_key u) ?k))
        \<or> (\<exists>pre post. ts = pre @ r # post \<and> tuple_gt (version_key r) ?k
             \<and> (\<forall>u \<in> set pre. tuple_gt (version_key r) (version_key u))
             \<and> (\<forall>u \<in> set post. \<not> tuple_gt (version_key u) (version_key r)))"
      by blast
    have res: "max_loop best bk (t # ts) = Inr r"
      using pv True r by simp
    from alt show ?thesis
    proof
      assume a: "r = t \<and> (\<forall>u \<in> set ts. \<not> tuple_gt (version_key u) ?k)"
      then have "t # ts = [] @ r # ts" by simp
      with a True res show ?thesis by fastforce
    next
      assume "\<exists>pre post. ts = pre @ r # post \<and> tuple_gt (version_key r) ?k
             \<and> (\<forall>u \<in> set pre. tuple_gt (version_key r) (version_key u))
             \<and> (\<forall>u \<in> set post. \<not> tuple_gt (version_key u) (version_key r))"
      then obtain pre post where p: "ts = pre @ r # post" "tuple_gt (version_key r) ?k"
        "\<forall>u \<in> set pre. tuple_gt (version_key r) (version_key u)"
        "\<forall>u \<in> set post. \<not> tuple_gt (version_key u) (version_key r)"
        by blast
      have 1: "t # ts = (t # pre) @ r # post" using p(1) by simp
      have 2: "tuple_gt (version_key r) bk" using p(2) True by (rule tuple_gt_trans)
      have 3: "\<forall>u \<in> set (t # pre). tuple_gt (version_key r) (version_key u)"
        using p(2,3) by simp
      from res 1 2 3 p(4) show ?thesis by blast
    qed
  next
    case False
    from Cons.IH [OF rest, of best bk] obtain r where
      r: "max_loop best bk ts = Inr r"
      and alt: "(r = best \<and> (\<forall>u \<in> set ts. \<not> tuple_gt (version_key u) bk))
        \<or> (\<exists>pre post. ts = pre @ r # post \<and> tuple_gt (version_key r) bk
             \<and> (\<forall>u \<in> set pre. tuple_gt (version_key r) (version_key u))
             \<and> (\<forall>u \<in> set post. \<not> tuple_gt (version_key u) (version_key r)))"
      by blast
    have res: "max_loop best bk (t # ts) = Inr r"
      using pv False r by simp
    from alt show ?thesis
    proof
      assume "r = best \<and> (\<forall>u \<in> set ts. \<not> tuple_gt (version_key u) bk)"
      with False res show ?thesis by simp
    next
      assume "\<exists>pre post. ts = pre @ r # post \<and> tuple_gt (version_key r) bk
             \<and> (\<forall>u \<in> set pre. tuple_gt (version_key r) (version_key u))
             \<and> (\<forall>u \<in> set post. \<not> tuple_gt (version_key u) (version_key r))"
      then obtain pre post where p: "ts = pre @ r # post" "tuple_gt (version_key r) bk"
        "\<forall>u \<in> set pre. tuple_gt (version_key r) (version_key u)"
        "\<forall>u \<in> set post. \<not> tuple_gt (version_key u) (version_key r)"
        by blast
      have 1: "t # ts = (t # pre) @ r # post" using p(1) by simp
      have "tuple_gt (version_key r) ?k" using False p(2) by (rule tuple_gt_below)
      then have 3: "\<forall>u \<in> set (t # pre). tuple_gt (version_key r) (version_key u)"
        using p(3) by simp
      from res 1 p(2) 3 p(4) show ?thesis by blast
    qed
  qed
qed

lemma first_greatest_split:
  assumes "tags = pre @ t # post"
    and "\<forall>u \<in> set pre. tuple_gt (version_key t) (version_key u)"
    and "\<forall>u \<in> set post. \<not> tuple_gt (version_key u) (version_key t)"
  shows "first_greatest tags t"
proof -
  have i: "length pre < length tags" "tags ! length pre = t"
    using assms(1) by simp_all
  have before: "\<forall>j < length pre. tuple_gt (version_key t) (version_key (tags ! j))"
    using assms(1,2) by (simp add: nth_append)
  have none: "\<not> tuple_gt (version_key (tags ! j)) (version_key t)" if "j < length tags" for j
  proof -
    consider "j < length pre" | "j = length pre" | "j > length pre" by linarith
    then show ?thesis
    proof cases
      case 1
      with before have "tuple_gt (version_key t) (version_key (tags ! j))" by simp
      then show ?thesis
        using tuple_gt_trans tuple_gt_irrefl by blast
    next
      case 2
      with i show ?thesis by (simp add: tuple_gt_irrefl)
    next
      case 3
      then have "tags ! j = post ! (j - length pre - 1)"
        using assms(1) by (simp add: nth_append nth_Cons')
      moreover have "j - length pre - 1 < length post"
        using 3 that assms(1) by simp
      ultimately show ?thesis using assms(3) by simp
    qed
  qed
  show ?thesis
    unfolding first_greatest_def using i before none by blast
qed

lemma py_max_first_greatest:
  assumes "tags \<noteq> []" and "\<forall>t \<in> set tags. decimal_digits t"
  shows "\<exists>t. py_max tags = Inr t \<and> first_greatest tags t"
proof -
  from assms(1) obtain t0 ts where tags: "tags = t0 # ts" by (cases tags) auto
  have pv: "parse_version t0 = Inr (version_key t0)"
    using assms(2) tags by (simp add: parse_version_decimal)
  have rest: "\<forall>u \<in> set ts. decimal_digits u"
    using assms(2) tags by simp
  from max_loop_result [OF rest, of t0 "version_key t0"] obtain r where
    r: "max_loop t0 (version_key t0) ts = Inr r"
    and alt: "(r = t0 \<and> (\<forall>u \<in> set ts. \<not> tuple_gt (version_key u) (version_key t0)))
        \<or> (\<exists>pre post. ts = pre @ r # post \<and> tuple_gt (version_key r) (version_key t0)
             \<and> (\<forall>u \<in> set pre. tuple_gt (version_key r) (version_key u))
             \<and> (\<forall>u \<in> set post. \<not> tuple_gt (version_key u) (version_key r)))"
    by blast
  have res: "py_max tags = Inr r"
    using tags pv r by simp
  from alt have "first_greatest tags r"
  proof
    assume a: "r = t0 \<and> (\<forall>u \<in> set ts. \<not> tuple_gt (version_key u) (version_key t0))"
    show ?thesis
      by (rule first_greatest_split [where pre = "[]" and post = ts]) (use a tags in auto)
  next
    assume "\<exists>pre post. ts = pre @ r # post \<and> tuple_gt (version_key r) (version_key t0)
             \<and> (\<forall>u \<in> set pre. tuple_gt (version_key r) (version_key u))
             \<and> (\<forall>u \<in> set post. \<not> tuple_gt (version_key u) (version_key r))"
    then obtain pre post where p: "ts = pre @ r # post" "tuple_gt (version_key r) (version_key t0)"
        "\<forall>u \<in> set pre. tuple_gt (version_key r) (version_key u)"
        "\<forall>u \<in> set post. \<not> tuple_gt (version_key u) (version_key r)"
      by blast
    show ?thesis
      by (rule first_greatest_split [where pre = "t0 # pre" and post = post]) (use p tags in auto)
  qed
  with res show ?thesis by blast
qed

lemma spec_excluded_excluded:
  "list_ex (\<lambda>ex. contains ex (lower s)) excluded = spec_excluded s"
  by (simp add: excluded_def spec_excluded_def)

lemma valid_tag_entry:
  assumes "tag_entry e"
  shows "valid_tag e =
    Inr (if entry_name e \<noteq> [] \<and> \<not> spec_excluded (entry_name e) then Some (entry_name e) else None)"
proof -
  from assms obtain kvs where e: "e = JObj kvs"
    by (cases e) (auto simp: tag_entry_def)
  show ?thesis
  proof (cases "map_of kvs ''name''")
    case None
    with e show ?thesis
      by (simp add: valid_tag_def entry_name_def)
  next
    case (Some v)
    with assms e show ?thesis
      by (cases v) (auto simp: valid_tag_def entry_name_def tag_entry_def spec_excluded_excluded)
  qed
qed

lemma valid_tags_entries:
  "list_all tag_entry entries \<Longrightarrow>
   valid_tags entries =
     Inr (filter (\<lambda>n. n \<noteq> [] \<and> \<not> spec_excluded n) (map entry_name entries))"
  by (induction entries) (auto simp: valid_tag_entry)

subsection \<open>The version ordering\<close>

lemma example_tags_filtered:
  "valid_tags [JObj [(''name'', JStr ''3.1.0'')], JObj [(''name'', JStr ''3.2.0-ea'')],
               JObj [(''name'', JStr ''3.10.0'')]] = Inr [''3.1.0'', ''3.10.0'']"
  by (simp add: valid_tag_def excluded_def lower_def lower_char_def)

lemma example_tags_max: "py_max [''3.1.0'', ''3.10.0''] = Inr ''3.10.0''"
  by (simp add: parse_version_def isdigit_def isdecimal_def py_int_def)

lemma example_tags_fetched:
  "await (respond (Response 200 (Parsed (JObj [(''results'',
       JArr [JObj [(''name'', JStr ''3.1.0'')], JObj [(''name'', JStr ''3.2.0-ea'')],
             JObj [(''name'', JStr ''3.10.0'')]])]))))
     (fetch_dockerhub_tags c repo name_filter) = Inr (JStr ''3.10.0'')"
  by (simp add: fetch_dockerhub_tags_def dockerhub_try_def is_success_def valid_tag_def
      excluded_def lower_def lower_char_def parse_version_def isdigit_def isdecimal_def py_int_def)

lemma version_key_examples:
  "version_key ''2.1rc'' = [2, 1]" "version_key ''v2.1'' = [2, 1]"
  by (simp_all add: version_key_def digits_value_def isdigit_def isdecimal_def)

text \<open>
  Claim C1, as the code has it. For a tag whose digit characters are decimal digits,
  \<open>parse_version\<close> returns the version key: the tag split on the dot, of each component
  the digit characters read as an integer, 0 when there are none; no component is
  negative. Keys are compared as Python compares tuples, that is lexicographically with a
  proper prefix below its extensions. On keys without negative components this is the
  specification's comparison, the shorter key filled up with zeros, except where the two
  filled keys are equal: then the longer key is the greater. For the tags \<open>3.1.0\<close>,
  \<open>3.2.0-ea\<close> and \<open>3.10.0\<close> the filter keeps \<open>3.1.0\<close> and \<open>3.10.0\<close>, the maximum is \<open>3.10.0\<close>,
  and that is what the fetcher returns.
\<close>

theorem version_ordering:
  "(decimal_digits t \<longrightarrow>
      parse_version t = Inr (version_key t) \<and> (\<forall>x \<in> set (version_key t). 0 \<le> x))
   \<and> tuple_gt a b = ord_class.lexordp b a
   \<and> ((\<forall>x \<in> set a. 0 \<le> x) \<and> (\<forall>x \<in> set b. 0 \<le> x) \<longrightarrow>
        tuple_gt a b =
          (spec_gt a b
           \<or> (pad (max (length a) (length b)) a = pad (max (length a) (length b)) b
               \<and> length b < length a)))
   \<and> valid_tags [JObj [(''name'', JStr ''3.1.0'')], JObj [(''name'', JStr ''3.2.0-ea'')],
                 JObj [(''name'', JStr ''3.10.0'')]] = Inr [''3.1.0'', ''3.10.0'']
   \<and> py_max [''3.1.0'', ''3.10.0''] = Inr ''3.10.0''
   \<and> await (respond (Response 200 (Parsed (JObj [(''results'',
          JArr [JObj [(''name'', JStr ''3.1.0'')], JObj [(''name'', JStr ''3.2.0-ea'')],
                JObj [(''name'', JStr ''3.10.0'')]])]))))
        (fetch_dockerhub_tags c repo name_filter) = Inr (JStr ''3.10.0'')"
  using parse_version_decimal [of t] version_key_nonneg [of t] tuple_gt_lexordp [of a b]
    tuple_gt_spec_gt [of a b] example_tags_filtered example_tags_max
    example_tags_fetched [of c repo name_filter]
  by blast

text \<open>
  The keys of \<open>2.1rc\<close> and \<open>v2.1\<close>, and a comparison on which the two orders agree:
  \<open>3.10.0\<close> is above \<open>3.2.0\<close>.
\<close>

theorem version_ordering_witness:
  "parse_version ''2.1rc'' = Inr [2, 1]
   \<and> parse_version ''v2.1'' = Inr [2, 1]
   \<and> tuple_gt [3, 10, 0] [3, 2, 0]
   \<and> spec_gt [3, 10, 0] [3, 2, 0]"
  using version_ordering [of "''2.1rc''" "[3, 10, 0]" "[3, 2, 0]"]
    version_ordering [of "''v2.1''" "[3, 10, 0]" "[3, 2, 0]"]
  by (simp add: decimal_digits_def isdigit_def isdecimal_def version_key_examples pad_def)

text \<open>
  Claim C1 as it is written fails on the keys of \<open>3.1\<close> and \<open>3.1.0\<close>: filled up with
  zeros they are equal, so in the specification's order neither is greater, while the code
  ranks \<open>3.1.0\<close> above \<open>3.1\<close> and selects it although \<open>3.1\<close> comes first.
\<close>

theorem trailing_zero_is_significant:
  "parse_version ''3.1'' = Inr [3, 1]
   \<and> parse_version ''3.1.0'' = Inr [3, 1, 0]
   \<and> tuple_gt [3, 1, 0] [3, 1]
   \<and> \<not> spec_gt [3, 1, 0] [3, 1]
   \<and> \<not> spec_gt [3, 1] [3, 1, 0]
   \<and> py_max [''3.1'', ''3.1.0''] = Inr ''3.1.0''"
  by (simp add: parse_version_def isdigit_def isdecimal_def py_int_def spec_gt_def pad_def)

subsection \<open>The result of the fetcher\<close>

lemma dockerhub_on_entries:
  assumes "is_success st" and "map_of kvs ''results'' = Some (JArr entries)"
  shows "await (respond (Response st (Parsed (JObj kvs)))) (fetch_dockerhub_tags c repo name_filter)
    = (if entries = [] then Inr (JStr ''no tags found'')
       else catch [RequestError, HTTPStatusError, JSONDecodeError, KeyError, IndexError]
              (JStr ''error fetching tags'')
              (bind_exn (valid_tags entries) (\<lambda>valid.
                 if valid \<noteq> [] then bind_exn (py_max valid) (\<lambda>t. Inr (JStr t))
                 else Inr (JStr ''no valid tags found''))))"
  using assms by (simp add: fetch_dockerhub_tags_def dockerhub_try_def)

text \<open>
  Claim C2, as the code has it. Let a 2xx response carry a JSON object whose \<open>results\<close> is
  an array of tag entries. The fetcher keeps, in order, the names that are not empty and
  contain none of \<open>ppc\<close>, \<open>dev\<close>, \<open>beta\<close>, \<open>ea\<close> in any letter case; an entry without a name or
  with an empty one is dropped as well. With an empty array the result is
  \<open>no tags found\<close>; with entries of which none is kept it is \<open>no valid tags found\<close>;
  otherwise, the digit characters of the kept names being decimal digits, it is the first
  of the kept names with the greatest key. A transport failure, a status outside 2xx and a
  body whose text is not JSON (\<open>JSONDecodeError\<close>) give \<open>error fetching tags\<close>. A body whose
  bytes do not decode is not among these (lemma \<open>undecodable_body_raises\<close>).
\<close>

theorem fetch_dockerhub_tags_cases:
  assumes "is_success st"
    and "map_of kvs ''results'' = Some (JArr entries)"
    and "list_all tag_entry entries"
    and "kept = filter (\<lambda>n. n \<noteq> [] \<and> \<not> spec_excluded n) (map entry_name entries)"
    and "list_all decimal_digits kept"
  shows "valid_tags entries = Inr kept
    \<and> (entries = [] \<longrightarrow>
         await (respond (Response st (Parsed (JObj kvs)))) (fetch_dockerhub_tags c repo name_filter)
           = Inr (JStr ''no tags found''))
    \<and> (entries \<noteq> [] \<and> kept = [] \<longrightarrow>
         await (respond (Response st (Parsed (JObj kvs)))) (fetch_dockerhub_tags c repo name_filter)
           = Inr (JStr ''no valid tags found''))
    \<and> (kept \<noteq> [] \<longrightarrow>
         (\<exists>t. await (respond (Response st (Parsed (JObj kvs)))) (fetch_dockerhub_tags c repo name_filter)
                = Inr (JStr t)
              \<and> first_greatest kept t))
    \<and> await (respond TransportFailure) (fetch_dockerhub_tags c repo name_filter)
         = Inr (JStr ''error fetching tags'')
    \<and> (\<not> is_success st' \<longrightarrow>
         await (respond (Response st' b)) (fetch_dockerhub_tags c repo name_filter)
           = Inr (JStr ''error fetching tags''))
    \<and> await (respond (Response st Malformed)) (fetch_dockerhub_tags c repo name_filter)
         = Inr (JStr ''error fetching tags'')"
proof -
  have v: "valid_tags entries = Inr kept"
    using assms(3,4) by (simp add: valid_tags_entries)
  have empty: "await (respond (Response st (Parsed (JObj kvs)))) (fetch_dockerhub_tags c repo name_filter)
           = Inr (JStr ''no tags found'')" if "entries = []"
    using that dockerhub_on_entries [OF assms(1,2), of c repo name_filter] by simp
  have none: "await (respond (Response st (Parsed (JObj kvs)))) (fetch_dockerhub_tags c repo name_filter)
           = Inr (JStr ''no valid tags found'')" if "entries \<noteq> []" "kept = []"
    using that v dockerhub_on_entries [OF assms(1,2), of c repo name_filter] by simp
  have some: "\<exists>t. await (respond (Response st (Parsed (JObj kvs)))) (fetch_dockerhub_tags c repo name_filter)
                = Inr (JStr t) \<and> first_greatest kept t" if k: "kept \<noteq> []"
  proof -
    have ne: "entries \<noteq> []" using k assms(4) by auto
    from assms(5) have "\<forall>t \<in> set kept. decimal_digits t"
      by (simp add: list_all_iff)
    from py_max_first_greatest [OF k this] obtain t where
      t: "py_max kept = Inr t" "first_greatest kept t" by blast
    with ne k v dockerhub_on_entries [OF assms(1,2), of c repo name_filter] show ?thesis
      by simp
  qed
  have fail: "await (respond TransportFailure) (fetch_dockerhub_tags c repo name_filter)
         = Inr (JStr ''error fetching tags'')"
    "\<not> is_success st' \<Longrightarrow>
         await (respond (Response st' b)) (fetch_dockerhub_tags c repo name_filter)
           = Inr (JStr ''error fetching tags'')"
    "await (respond (Response st Malformed)) (fetch_dockerhub_tags c repo name_filter)
         = Inr (JStr ''error fetching tags'')"
    using assms(1) by (simp_all add: fetch_dockerhub_tags_def dockerhub_try_def)
  from v empty none some fail show ?thesis by blast
qed

text \<open>
  The tags of the specification's test, a response whose entries are all dropped, and
  the status 503.
\<close>

theorem fetch_dockerhub_tags_cases_witness:
  "(\<exists>t. await (respond (Response 200 (Parsed (JObj [(''count'', JInt 3), (''results'',
            JArr [JObj [(''name'', JStr ''3.1.0'')], JObj [(''name'', JStr ''3.2.0-ea'')],
                  JObj [(''name'', JStr ''3.10.0'')]])]))))
          (fetch_dockerhub_tags (AsyncClient []) ''portworx/px-enterprise'' ''3'') = Inr (JStr t)
        \<and> first_greatest [''3.1.0'', ''3.10.0''] t)
   \<and> await (respond (Response 200 (Parsed (JObj [(''results'',
            JArr [JObj [(''name'', JStr ''25.1-DEV'')], JObj [(''id'', JInt 7)]])]))))
          (fetch_dockerhub_tags (AsyncClient []) ''portworx/px-enterprise'' ''3'')
       = Inr (JStr ''no valid tags found'')
   \<and> await (respond (Response 503 Malformed))
          (fetch_dockerhub_tags (AsyncClient []) ''portworx/px-enterprise'' ''3'')
       = Inr (JStr ''error fetching tags'')"
proof -
  have ok: "is_success 200" by (simp add: is_success_def)
  have bad: "\<not> is_success 503" by (simp add: is_success_def)
  have r1: "map_of [(''count'', JInt 3), (''results'',
            JArr [JObj [(''name'', JStr ''3.1.0'')], JObj [(''name'', JStr ''3.2.0-ea'')],
                  JObj [(''name'', JStr ''3.10.0'')]])] ''results''
      = Some (JArr [JObj [(''name'', JStr ''3.1.0'')], JObj [(''name'', JStr ''3.2.0-ea'')],
                  JObj [(''name'', JStr ''3.10.0'')]])"
    by simp
  have e1: "list_all tag_entry [JObj [(''name'', JStr ''3.1.0'')], JObj [(''name'', JStr ''3.2.0-ea'')],
                  JObj [(''name'', JStr ''3.10.0'')]]"
    by (simp add: tag_entry_def)
  have k1: "[''3.1.0'', ''3.10.0''] = filter (\<lambda>n. n \<noteq> [] \<and> \<not> spec_excluded n)
      (map entry_name [JObj [(''name'', JStr ''3.1.0'')], JObj [(''name'', JStr ''3.2.0-ea'')],
                  JObj [(''name'', JStr ''3.10.0'')]])"
    by (simp add: entry_name_def spec_excluded_def lower_def lower_char_def)
  have d1: "list_all decimal_digits [''3.1.0'', ''3.10.0'']"
    by (simp add: decimal_digits_def isdigit_def isdecimal_def)
  have r2: "map_of [(''results'', JArr [JObj [(''name'', JStr ''25.1-DEV'')], JObj [(''id'', JInt 7)]])]
      ''results'' = Some (JArr [JObj [(''name'', JStr ''25.1-DEV'')], JObj [(''id'', JInt 7)]])"
    by simp
  have e2: "list_all tag_entry [JObj [(''name'', JStr ''25.1-DEV'')], JObj [(''id'', JInt 7)]]"
    by (simp add: tag_entry_def)
  have k2: "[] = filter (\<lambda>n. n \<noteq> [] \<and> \<not> spec_excluded n)
      (map entry_name [JObj [(''name'', JStr ''25.1-DEV'')], JObj [(''id'', JInt 7)]])"
    by code_simp
  have d2: "list_all decimal_digits []"
    by simp
  from fetch_dockerhub_tags_cases [OF ok r1 e1 k1 d1,
      of "AsyncClient []" "''portworx/px-enterprise''" "''3''" 503 Malformed]
    fetch_dockerhub_tags_cases [OF ok r2 e2 k2 d2,
      of "AsyncClient []" "''portworx/px-enterprise''" "''3''" 503 Malformed] bad
  show ?thesis by simp
qed

text \<open>
  Claim C2 as it is written fails on a response whose only entry has the empty name: the
  name contains none of the four words, so the specification's filter keeps it and the
  filtered list is not empty, while the code drops it and returns \<open>no valid tags found\<close>.
\<close>

theorem empty_name_is_dropped:
  "spec_filtered [''''] = ['''']
   \<and> valid_tags [JObj [(''name'', JStr '''')]] = Inr []
   \<and> await (respond (Response 200 (Parsed (JObj [(''results'', JArr [JObj [(''name'', JStr '''')]])]))))
        (fetch_dockerhub_tags (AsyncClient []) ''portworx/px-operator'' ''25'')
      = Inr (JStr ''no valid tags found'')"
  by (simp add: spec_filtered_def spec_excluded_def lower_def valid_tag_def
      fetch_dockerhub_tags_def dockerhub_try_def is_success_def)

text \<open>
  Claim C10. A 2xx response whose JSON object has no \<open>results\<close> key, or has a false value
  under it (\<open>null\<close>, \<open>false\<close>, zero, an empty string, array or object), makes the fetcher
  return \<open>no tags found\<close>: nothing is raised and the error sentinel is not used.
\<close>

theorem missing_results_is_no_tags:
  "is_success st \<Longrightarrow>
   map_of kvs ''results'' = None \<or> (\<exists>v. map_of kvs ''results'' = Some v \<and> \<not> truthy v) \<Longrightarrow>
   await (respond (Response st (Parsed (JObj kvs)))) (fetch_dockerhub_tags c repo name_filter)
     = Inr (JStr ''no tags found'')"
  by (auto simp: fetch_dockerhub_tags_def dockerhub_try_def)

text \<open>
  An object without the key, one with an empty array and one with \<open>null\<close>.
\<close>

theorem missing_results_is_no_tags_witness:
  "await (respond (Response 200 (Parsed (JObj [(''count'', JInt 0)]))))
      (fetch_dockerhub_tags (AsyncClient []) ''portworx/px-operator'' ''25'') = Inr (JStr ''no tags found'')
   \<and> await (respond (Response 200 (Parsed (JObj [(''results'', JArr [])]))))
      (fetch_dockerhub_tags (AsyncClient []) ''portworx/px-operator'' ''25'') = Inr (JStr ''no tags found'')
   \<and> await (respond (Response 200 (Parsed (JObj [(''results'', JNull)]))))
      (fetch_dockerhub_tags (AsyncClient []) ''portworx/px-operator'' ''25'') = Inr (JStr ''no tags found'')"
  using missing_results_is_no_tags [of 200 "[(''count'', JInt 0)]" "AsyncClient []" "''portworx/px-operator''" "''25''"]
        missing_results_is_no_tags [of 200 "[(''results'', JArr [])]" "AsyncClient []" "''portworx/px-operator''" "''25''"]
        missing_results_is_no_tags [of 200 "[(''results'', JNull)]" "AsyncClient []" "''portworx/px-operator''" "''25''"]
  by (simp add: is_success_def)

section \<open>Exceptions that leave a fetcher\<close>

text \<open>
  The \<open>except\<close> clauses name some exception classes; the others leave the fetcher and, through
  \<open>asyncio.gather\<close>, the aggregator. A 2xx body whose bytes do not decode raises
  \<open>UnicodeDecodeError\<close> in \<open>resp.json()\<close>, which no fetcher names.
\<close>

lemma undecodable_body_raises:
  "await (respond (Response 200 Undecodable)) (fetch_github_release c repo) = Inl UnicodeDecodeError"
  "await (respond (Response 200 Undecodable)) (fetch_channel_version c channel) = Inl UnicodeDecodeError"
  "await (respond (Response 200 Undecodable)) (fetch_dockerhub_tags c repo name_filter) = Inl UnicodeDecodeError"
  by (simp_all add: fetch_github_release_def github_try_def fetch_channel_version_def channel_try_def
      fetch_dockerhub_tags_def dockerhub_try_def is_success_def)

text \<open>
  Further: a 2xx body that is not JSON or not an object for the release-tag fetcher, a
  value that cannot be subscripted for the channel fetcher, and for the registry-tag
  fetcher an entry that is not an object, a \<open>results\<close> without a length, and a kept name
  with a superscript digit, which \<open>isdigit\<close> accepts and \<open>int\<close> refuses.
\<close>

lemma unhandled_exceptions:
  "await (respond (Response 200 Malformed)) (fetch_github_release c repo) = Inl JSONDecodeError"
  "await (respond (Response 200 (Parsed (JArr [])))) (fetch_github_release c repo) = Inl AttributeError"
  "await (respond (Response 200 (Parsed (JObj [(''data'', JArr [JInt 5])]))))
     (fetch_channel_version c channel) = Inl TypeError"
  "await (respond (Response 200 (Parsed (JArr [])))) (fetch_channel_version c channel) = Inl TypeError"
  "await (respond (Response 200 (Parsed (JObj [(''results'', JArr [JStr ''3.1.0''])]))))
     (fetch_dockerhub_tags c repo name_filter) = Inl AttributeError"
  "await (respond (Response 200 (Parsed (JObj [(''results'', JInt 5)]))))
     (fetch_dockerhub_tags c repo name_filter) = Inl TypeError"
  "await (respond (Response 200 (Parsed (JObj [(''results'', JArr [JObj [(''name'', JStr [CHR ''1'', CHR 0xB2])]])]))))
     (fetch_dockerhub_tags c repo name_filter) = Inl ValueError"
  by (simp_all add: fetch_github_release_def github_try_def fetch_channel_version_def channel_try_def
      fetch_dockerhub_tags_def dockerhub_try_def is_success_def valid_tag_def excluded_def
      lower_def lower_char_def parse_version_def isdigit_def isdecimal_def py_int_def)

section \<open>The aggregator\<close>

lemma gather_length: "gather nw ts = Inr rs \<Longrightarrow> length rs = length ts"
proof (induction ts arbitrary: rs)
  case Nil
  then show ?case by simp
next
  case (Cons t ts)
  then show ?case
    by (auto simp: bind_exn_def split: sum.splits)
qed

lemma length_make_tasks_sources: "length (make_tasks c sources) = length sources"
  by (simp add: sources_def)

lemma distinct_source_names: "distinct (map fst sources)"
  by (simp add: sources_def)

lemma snapshot_keys:
  assumes "get_versions_async tok nw = Inr snapshot"
  shows "map fst snapshot = map fst sources"
proof -
  from assms obtain results where
    g: "gather nw (make_tasks (AsyncClient (HEADERS tok)) sources) = Inr results"
    and s: "snapshot = zip (map fst sources) results"
    by (auto simp: get_versions_async_def bind_exn_def split: sum.splits)
  from gather_length [OF g] have "length results = length sources"
    by (simp add: length_make_tasks_sources)
  with s show ?thesis by simp
qed

lemma refresh_once_keys:
  "map fst (version_cache (refresh_once tok nw s)) = map fst sources
   \<or> version_cache (refresh_once tok nw s) = version_cache s"
  by (auto simp: refresh_once_def Let_def snapshot_keys split: sum.splits)

lemma refresh_versions_keys:
  "map fst (version_cache (refresh_versions tok nws s)) = map fst sources
   \<or> version_cache (refresh_versions tok nws s) = version_cache s"
proof (induction nws arbitrary: s)
  case Nil
  then show ?case by simp
next
  case (Cons nw nws)
  from Cons.IH [of "refresh_once tok nw s"] refresh_once_keys [of tok nw s]
  show ?case by auto
qed

text \<open>Two cycles that the statements below run: every request fails in transport, and
  every request is answered with the JSON value \<open>null\<close>.\<close>

lemma all_failed:
  "get_versions_async None (respond TransportFailure) =
     Inr [(''rancher'', JStr ''error fetching release''),
          (''rke2-stable'', JStr ''upstream server issue''),
          (''k3s-stable'', JStr ''upstream server issue''),
          (''longhorn'', JStr ''error fetching release''),
          (''cert-manager'', JStr ''error fetching release''),
          (''harvester'', JStr ''error fetching release''),
          (''hauler'', JStr ''error fetching release''),
          (''portworx'', JStr ''error fetching tags''),
          (''px_oper'', JStr ''error fetching tags''),
          (''stork'', JStr ''error fetching tags''),
          (''pxenterprise'', JStr ''error fetching tags'')]"
  by (simp add: get_versions_async_def sources_def fetch_github_release_def
      fetch_channel_version_def fetch_dockerhub_tags_def github_try_def channel_try_def
      dockerhub_try_def)

lemma all_null:
  "get_versions_async None (respond (Response 200 (Parsed JNull))) = Inl AttributeError"
  by (simp add: get_versions_async_def sources_def fetch_github_release_def github_try_def
      is_success_def)

text \<open>
  Claim C5. When a refresh cycle completes (the aggregator returns a snapshot), the cache
  is that snapshot and its keys are the names of \<open>sources\<close>, each once and in the same order,
  whatever the fetchers returned. Whatever the refresh loop has done since the start, no
  key of the cache is outside these names.
\<close>

theorem cache_keys_are_source_names:
  assumes "get_versions_async tok nw = Inr snapshot"
  shows "version_cache (refresh_once tok nw s) = snapshot
   \<and> map fst (version_cache (refresh_once tok nw s)) = map fst sources
   \<and> distinct (map fst (version_cache (refresh_once tok nw s)))
   \<and> set (map fst (version_cache (refresh_versions tok nws initial_state)))
        \<subseteq> set (map fst sources)"
proof -
  have c: "version_cache (refresh_once tok nw s) = snapshot"
    using assms by (simp add: refresh_once_def Let_def)
  have k: "map fst snapshot = map fst sources"
    using assms by (rule snapshot_keys)
  have i: "set (map fst (version_cache (refresh_versions tok nws initial_state)))
             \<subseteq> set (map fst sources)"
  proof -
    consider "map fst (version_cache (refresh_versions tok nws initial_state)) = map fst sources"
      | "version_cache (refresh_versions tok nws initial_state) = []"
      using refresh_versions_keys [of tok nws initial_state] by (auto simp: initial_state_def)
    then show ?thesis
    proof cases
      case 1
      then show ?thesis by (simp only: subset_refl)
    next
      case 2
      then show ?thesis by simp
    qed
  qed
  from c k i distinct_source_names show ?thesis by simp
qed

text \<open>A cycle in which every fetcher degrades to its sentinel still publishes all
  eleven keys.\<close>

theorem cache_keys_are_source_names_witness:
  "map fst (version_cache (refresh_once None (respond TransportFailure) initial_state))
     = [''rancher'', ''rke2-stable'', ''k3s-stable'', ''longhorn'', ''cert-manager'', ''harvester'',
        ''hauler'', ''portworx'', ''px_oper'', ''stork'', ''pxenterprise'']"
  using cache_keys_are_source_names [OF all_failed, of initial_state "[]"]
  by (simp add: sources_def)

section \<open>The refresh loop\<close>

text \<open>
  Claim C6. When an exception escapes the aggregator in a cycle, the pass of the loop
  leaves the cache as it was and logs the error after the line that announced the
  refresh; the loop goes on with the next pass, and the cache after that pass is what it
  would have been without the failed one.
\<close>

theorem failed_cycle_keeps_cache:
  "get_versions_async tok nw = Inl e \<Longrightarrow>
   version_cache (refresh_once tok nw s) = version_cache s
   \<and> logged (refresh_once tok nw s) = logged s @ [Refreshing, Error_refreshing e]
   \<and> refresh_versions tok (nw # nws) s = refresh_versions tok nws (refresh_once tok nw s)
   \<and> version_cache (refresh_versions tok [nw, nw'] s) = version_cache (refresh_once tok nw' s)"
  by (simp add: refresh_once_def Let_def split: sum.splits)

text \<open>A cycle that fails as a whole: every host answers \<open>null\<close>, and the release-tag
  fetcher's \<open>.get\<close> raises an exception that its \<open>except\<close> clause does not name.\<close>

theorem failed_cycle_keeps_cache_witness:
  "version_cache (refresh_once None (respond (Response 200 (Parsed JNull)))
      \<lparr>version_cache = [(''rancher'', JStr ''v2.9.0'')], logged = []\<rparr>)
     = [(''rancher'', JStr ''v2.9.0'')]
   \<and> logged (refresh_once None (respond (Response 200 (Parsed JNull)))
      \<lparr>version_cache = [(''rancher'', JStr ''v2.9.0'')], logged = []\<rparr>)
     = [Refreshing, Error_refreshing AttributeError]"
  using failed_cycle_keeps_cache [OF all_null,
      of "\<lparr>version_cache = [(''rancher'', JStr ''v2.9.0'')], logged = []\<rparr>"]
  by simp

section \<open>The bearer token\<close>

lemma no_token_no_header:
  "tok = None \<or> tok = Some [] \<Longrightarrow>
   t \<in> set (make_tasks (AsyncClient (HEADERS tok)) srcs) \<Longrightarrow> headers (fst t) = []"
  by (induction srcs)
    (auto simp: HEADERS_def fetch_github_release_def fetch_channel_version_def
      fetch_dockerhub_tags_def client_get_def split: if_splits)

text \<open>
  Claim C7. The claim is that the bearer token goes out with the requests of the
  release-tag fetcher only. In the code the header is a setting of the one client that
  all fetchers share: with the token \<open>t\<close> set, each of the eleven requests of a cycle carries
  \<open>Authorization: Bearer t\<close>, those to the channel hosts and to the registry included.
\<close>

theorem token_goes_to_every_host:
  "map (\<lambda>t. (url (fst t), headers (fst t)))
     (make_tasks (AsyncClient (HEADERS (Some ''t''))) sources)
   = [(''https://api.github.com/repos/rancher/rancher/releases/latest'',
         [(''Authorization'', ''Bearer t'')]),
      (''https://update.rke2.io/v1-release/channels'',
         [(''Authorization'', ''Bearer t'')]),
      (''https://update.k3s.io/v1-release/channels'',
         [(''Authorization'', ''Bearer t'')]),
      (''https://api.github.com/repos/longhorn/longhorn/releases/latest'',
         [(''Authorization'', ''Bearer t'')]),
      (''https://api.github.com/repos/cert-manager/cert-manager/releases/latest'',
         [(''Authorization'', ''Bearer t'')]),
      (''https://api.github.com/repos/harvester/harvester/releases/latest'',
         [(''Authorization'', ''Bearer t'')]),
      (''https://api.github.com/repos/hauler-dev/hauler/releases/latest'',
         [(''Authorization'', ''Bearer t'')]),
      (''https://hub.docker.com/v2/repositories/portworx/px-pure-csi-driver/tags?name=25&page_size=100'',
         [(''Authorization'', ''Bearer t'')]),
      (''https://hub.docker.com/v2/repositories/portworx/px-operator/tags?name=25&page_size=100'',
         [(''Authorization'', ''Bearer t'')]),
      (''https://hub.docker.com/v2/repositories/openstorage/stork/tags?name=25&page_size=100'',
         [(''Authorization'', ''Bearer t'')]),
      (''https://hub.docker.com/v2/repositories/portworx/px-enterprise/tags?name=3&page_size=100'',
         [(''Authorization'', ''Bearer t'')])]"
  by (simp add: sources_def HEADERS_def fetch_github_release_def fetch_channel_version_def
      fetch_dockerhub_tags_def client_get_def)

section \<open>Startup and the routes\<close>

lemma warm_up_keys:
  "warm_up tok nw s0 = Inr s \<Longrightarrow> map fst (version_cache s) = map fst sources"
  by (auto simp: warm_up_def bind_exn_def snapshot_keys split: sum.splits)

lemma startup_keys:
  assumes "startup tok before nw after = Inr s"
  shows "map fst (version_cache s) = map fst sources"
proof -
  from assms obtain s1 where
    w: "warm_up tok nw (refresh_versions tok before initial_state) = Inr s1"
    and s: "s = refresh_versions tok after s1"
    by (auto simp: startup_def bind_exn_def split: sum.splits)
  from warm_up_keys [OF w] refresh_versions_keys [of tok after s1] s
  show ?thesis by auto
qed

lemma refresh_once_cache:
  "version_cache (refresh_once tok nw s) = version_cache s
   \<or> get_versions_async tok nw = Inr (version_cache (refresh_once tok nw s))"
  by (auto simp: refresh_once_def Let_def split: sum.splits)

lemma refresh_versions_cache:
  "version_cache (refresh_versions tok nws s) = version_cache s
   \<or> (\<exists>nw' \<in> set nws. get_versions_async tok nw' = Inr (version_cache (refresh_versions tok nws s)))"
proof (induction nws arbitrary: s)
  case Nil
  then show ?case by simp
next
  case (Cons nw nws)
  from Cons.IH [of "refresh_once tok nw s"] refresh_once_cache [of tok nw s]
  show ?case by auto
qed

lemma warm_up_cache:
  "warm_up tok nw s0 = Inr s \<Longrightarrow> get_versions_async tok nw = Inr (version_cache s)"
  by (auto simp: warm_up_def bind_exn_def split: sum.splits)

lemma startup_cache:
  assumes "startup tok before nw after = Inr s"
  shows "\<exists>nw' \<in> set (nw # after). get_versions_async tok nw' = Inr (version_cache s)"
proof -
  from assms obtain s1 where
    w: "warm_up tok nw (refresh_versions tok before initial_state) = Inr s1"
    and s: "s = refresh_versions tok after s1"
    by (auto simp: startup_def bind_exn_def split: sum.splits)
  from warm_up_cache [OF w] refresh_versions_cache [of tok after s1] s
  show ?thesis by auto
qed

lemma dict_get_found:
  assumes "k \<in> set (map fst d)"
  shows "map_of d k = Some (dict_get d k dflt)"
proof -
  from assms obtain v where "map_of d k = Some v"
    by (metis map_of_eq_None_iff not_Some_eq set_map)
  then show ?thesis
    by (simp add: dict_get_def)
qed

lemma startup_failed:
  "startup None [] (respond TransportFailure) [] =
    Inr \<lparr>version_cache =
           [(''rancher'', JStr ''error fetching release''),
            (''rke2-stable'', JStr ''upstream server issue''),
            (''k3s-stable'', JStr ''upstream server issue''),
            (''longhorn'', JStr ''error fetching release''),
            (''cert-manager'', JStr ''error fetching release''),
            (''harvester'', JStr ''error fetching release''),
            (''hauler'', JStr ''error fetching release''),
            (''portworx'', JStr ''error fetching tags''),
            (''px_oper'', JStr ''error fetching tags''),
            (''stork'', JStr ''error fetching tags''),
            (''pxenterprise'', JStr ''error fetching tags'')],
          logged = []\<rparr>"
  by (simp add: startup_def warm_up_def all_failed initial_state_def)

text \<open>Before any cycle has completed, the page shows the placeholder in every field.\<close>

lemma page_before_any_cycle:
  "map snd (fst (curl_all_the_things initial_state)) = replicate 11 (JStr ''loading...'')"
  by (simp add: curl_all_the_things_def initial_state_def dict_get_def eval_nat_numeral)

text \<open>
  Claim C8. When the module runs as a script, a request is served only after the warm-up
  cycle has completed and has been assigned to the cache. Whatever the refresh thread did
  before and after that assignment, the cache a request then reads is the snapshot that a
  completed aggregation cycle returned: that of the warm-up, or that of a later pass of the
  refresh loop. It holds every source name, and each field of the page is the value
  cached under its key: the default \<open>loading...\<close> of the lookup is never what is rendered.
\<close>

theorem first_page_is_never_loading:
  assumes "startup tok before nw after = Inr s"
  shows "(\<exists>nw' \<in> set (nw # after). get_versions_async tok nw' = Inr (version_cache s))
    \<and> map fst (version_cache s) = map fst sources
    \<and> list_all2 (\<lambda>(var, v) k. map_of (version_cache s) k = Some v)
        (fst (curl_all_the_things s))
        [''rancher'', ''rke2-stable'', ''k3s-stable'', ''longhorn'', ''cert-manager'', ''harvester'',
         ''hauler'', ''portworx'', ''pxenterprise'', ''px_oper'', ''stork'']"
proof -
  have c: "\<exists>nw' \<in> set (nw # after). get_versions_async tok nw' = Inr (version_cache s)"
    using assms by (rule startup_cache)
  have k: "map fst (version_cache s) = map fst sources"
    using assms by (rule startup_keys)
  have names: "set (map fst sources) = {''rancher'', ''rke2-stable'', ''k3s-stable'', ''longhorn'',
      ''cert-manager'', ''harvester'', ''hauler'', ''portworx'', ''pxenterprise'', ''px_oper'', ''stork''}"
    by (auto simp: sources_def)
  have inn: "map_of (version_cache s) key = Some (dict_get (version_cache s) key dflt)"
    if "key \<in> {''rancher'', ''rke2-stable'', ''k3s-stable'', ''longhorn'',
      ''cert-manager'', ''harvester'', ''hauler'', ''portworx'', ''pxenterprise'', ''px_oper'', ''stork''}"
    for key dflt
    using dict_get_found [of key "version_cache s" dflt] k that names by simp
  have page: "list_all2 (\<lambda>(var, v) k. map_of (version_cache s) k = Some v)
        (fst (curl_all_the_things s))
        [''rancher'', ''rke2-stable'', ''k3s-stable'', ''longhorn'', ''cert-manager'', ''harvester'',
         ''hauler'', ''portworx'', ''pxenterprise'', ''px_oper'', ''stork'']"
    by (simp add: curl_all_the_things_def inn)
  from c k page show ?thesis by blast
qed

text \<open>A start in which every source is degraded: the cache is the snapshot of the warm-up
  cycle, and the page shows its sentinels.\<close>

theorem first_page_is_never_loading_witness:
  "\<exists>s. startup None [] (respond TransportFailure) [] = Inr s
     \<and> get_versions_async None (respond TransportFailure) = Inr (version_cache s)
     \<and> map fst (fst (curl_all_the_things s)) =
         [''rancher_ver'', ''rke_ver'', ''k3s_ver'', ''longhorn_ver'', ''cert_ver'', ''harv_ver'',
          ''hauler_ver'', ''portworx_ver'', ''pxe_ver'', ''px_oper_ver'', ''stork_ver'']
     \<and> map snd (fst (curl_all_the_things s)) =
         [JStr ''error fetching release'', JStr ''upstream server issue'', JStr ''upstream server issue'',
          JStr ''error fetching release'', JStr ''error fetching release'', JStr ''error fetching release'',
          JStr ''error fetching release'', JStr ''error fetching tags'', JStr ''error fetching tags'',
          JStr ''error fetching tags'', JStr ''error fetching tags'']
     \<and> list_all2 (\<lambda>(var, v) k. map_of (version_cache s) k = Some v)
        (fst (curl_all_the_things s))
        [''rancher'', ''rke2-stable'', ''k3s-stable'', ''longhorn'', ''cert-manager'', ''harvester'',
         ''hauler'', ''portworx'', ''pxenterprise'', ''px_oper'', ''stork'']"
  using first_page_is_never_loading [OF startup_failed] startup_failed
  by (simp add: curl_all_the_things_def dict_get_def)

text \<open>
  Claim C9. Reading is idempotent: the route \<open>/json\<close> returns the cache and leaves the state
  as it was, so a second read with no assignment in between returns the same mapping; the
  same holds for the page route.
\<close>

theorem reading_is_idempotent:
  "snd (json_all_the_things s) = s
   \<and> fst (json_all_the_things (snd (json_all_the_things s))) = fst (json_all_the_things s)
   \<and> fst (json_all_the_things s) = (version_cache s, 200)
   \<and> snd (curl_all_the_things s) = s
   \<and> fst (curl_all_the_things (snd (curl_all_the_things s))) = fst (curl_all_the_things s)"
  by (simp add: json_all_the_things_def curl_all_the_things_def)

end
